theory Spec2Isabelle
  imports Main
begin

section \<open>Python strings\<close>

text \<open>
  A Python \<open>str\<close> is a sequence of Unicode code points, so it is modelled as a list of
  natural numbers, not as a list of bytes. \<open>str\<close> turns an ASCII literal into that form.
\<close>

type_synonym pystr = "nat list"

definition str :: "string \<Rightarrow> pystr" where
  "str s = map of_char s"

text \<open>
  \<open>str.isspace\<close> for one code point: the white space code points of CPython
  (U+0009..U+000D, U+001C..U+0020, U+0085, U+00A0, U+1680, U+2000..U+200A, U+2028, U+2029,
  U+202F, U+205F, U+3000).
\<close>

definition py_isspace :: "nat \<Rightarrow> bool" where
  "py_isspace c \<longleftrightarrow>
     (9 \<le> c \<and> c \<le> 13) \<or> (28 \<le> c \<and> c \<le> 32) \<or> c = 133 \<or> c = 160 \<or> c = 5760 \<or>
     (8192 \<le> c \<and> c \<le> 8202) \<or> c = 8232 \<or> c = 8233 \<or> c = 8239 \<or> c = 8287 \<or> c = 12288"

definition py_strip :: "pystr \<Rightarrow> pystr" where
  "py_strip s = rev (dropWhile py_isspace (rev (dropWhile py_isspace s)))"

text \<open>
  \<open>str.lower\<close> and \<open>str.upper\<close>. The ASCII letters and U+0131 (LATIN SMALL LETTER
  DOTLESS I, whose upper case is the ASCII letter I and which is its own lower case) are
  mapped as CPython maps them. Every other code point is left unchanged, which is what
  CPython does for the uncased ones only. The theorems below that only say where
  \<open>py_lower\<close> and \<open>py_upper\<close> are applied do not depend on these tables; the one that
  does, the idempotence of \<open>normalize_format_name\<close>, is stated for ASCII strings.
\<close>

definition lower_cp :: "nat \<Rightarrow> nat" where
  "lower_cp c = (if 65 \<le> c \<and> c \<le> 90 then c + 32 else c)"

definition upper_cp :: "nat \<Rightarrow> nat" where
  "upper_cp c = (if 97 \<le> c \<and> c \<le> 122 then c - 32 else if c = 305 then 73 else c)"

definition py_lower :: "pystr \<Rightarrow> pystr" where
  "py_lower s = map lower_cp s"

definition py_upper :: "pystr \<Rightarrow> pystr" where
  "py_upper s = map upper_cp s"

definition ascii :: "pystr \<Rightarrow> bool" where
  "ascii s \<longleftrightarrow> list_all (\<lambda>c. c < 128) s"

section \<open>Format registry\<close>

text \<open>The dictionary \<open>mapping\<close> of \<open>normalize_format_name\<close>, in the order of the source.\<close>

definition mapping :: "(pystr \<times> pystr) list" where
  "mapping =
     [(str ''jpg'', str ''JPEG''),
      (str ''jpeg'', str ''JPEG''),
      (str ''png'', str ''PNG''),
      (str ''ico'', str ''ICO''),
      (str ''icon'', str ''ICO''),
      (str ''gif'', str ''GIF''),
      (str ''bmp'', str ''BMP''),
      (str ''webp'', str ''WEBP''),
      (str ''tiff'', str ''TIFF''),
      (str ''tif'', str ''TIFF'')]"

text \<open>\<open>d.get(k, default)\<close> on a dictionary given as an association list.\<close>

definition dict_get :: "('k \<times> 'v) list \<Rightarrow> 'k \<Rightarrow> 'v \<Rightarrow> 'v" where
  "dict_get d k dflt = (case map_of d k of Some v \<Rightarrow> v | None \<Rightarrow> dflt)"

definition normalize_format_name :: "pystr \<Rightarrow> pystr" where
  "normalize_format_name name =
     (if name = [] then []
      else let name' = py_lower (py_strip name)
           in dict_get mapping name' (py_upper name'))"

definition ext_map :: "(pystr \<times> pystr) list" where
  "ext_map =
     [(str ''JPEG'', str ''.jpg''),
      (str ''PNG'', str ''.png''),
      (str ''ICO'', str ''.ico''),
      (str ''GIF'', str ''.gif''),
      (str ''BMP'', str ''.bmp''),
      (str ''WEBP'', str ''.webp''),
      (str ''TIFF'', str ''.tiff'')]"

definition get_extension_for_format :: "pystr \<Rightarrow> pystr" where
  "get_extension_for_format format_name =
     (let fmt = normalize_format_name format_name
      in dict_get ext_map fmt (str ''.'' @ py_lower fmt))"

text \<open>
  The enumerated formats of the specification and its alias table, written from the
  specification's words, for comparison with \<open>normalize_format_name\<close>.
\<close>

datatype ImageFormat = PNG | JPEG | ICO | GIF | BMP | WEBP | TIFF

fun format_name :: "ImageFormat \<Rightarrow> pystr" where
  "format_name PNG = str ''PNG''"
| "format_name JPEG = str ''JPEG''"
| "format_name ICO = str ''ICO''"
| "format_name GIF = str ''GIF''"
| "format_name BMP = str ''BMP''"
| "format_name WEBP = str ''WEBP''"
| "format_name TIFF = str ''TIFF''"

definition spec_lookup :: "pystr \<Rightarrow> ImageFormat option" where
  "spec_lookup n =
     (if n = str ''jpg'' \<or> n = str ''jpeg'' then Some JPEG
      else if n = str ''ico'' \<or> n = str ''icon'' then Some ICO
      else if n = str ''tif'' \<or> n = str ''tiff'' then Some TIFF
      else if n = str ''png'' then Some PNG
      else if n = str ''gif'' then Some GIF
      else if n = str ''bmp'' then Some BMP
      else if n = str ''webp'' then Some WEBP
      else None)"

section \<open>Paths\<close>

text \<open>
  \<open>str.rfind\<close> for one code point (\<open>-1\<close> when it does not occur), and
  \<open>os.path.splitext\<close> and \<open>os.path.basename\<close> of \<open>posixpath\<close>: the extension starts
  at the last dot after the last slash, provided some code point between that slash and
  that dot is not a dot.
\<close>

definition rfind :: "pystr \<Rightarrow> nat \<Rightarrow> int" where
  "rfind p c = (case filter (\<lambda>i. p ! i = c) (rev [0..<length p]) of [] \<Rightarrow> - 1 | i # _ \<Rightarrow> int i)"

definition splitext :: "pystr \<Rightarrow> pystr \<times> pystr" where
  "splitext p =
     (let sepIndex = rfind p 47;
          dotIndex = rfind p 46
      in if dotIndex > sepIndex \<and> list_ex (\<lambda>i. p ! i \<noteq> 46) [nat (sepIndex + 1)..<nat dotIndex]
         then (take (nat dotIndex) p, drop (nat dotIndex) p)
         else (p, []))"

definition basename :: "pystr \<Rightarrow> pystr" where
  "basename p = drop (nat (rfind p 47 + 1)) p"

definition startswith :: "pystr \<Rightarrow> pystr \<Rightarrow> bool" where
  "startswith s t \<longleftrightarrow> take (length t) s = t"

section \<open>Images and the imaging library\<close>

text \<open>
  The values stored in \<open>img.info\<close>, the exceptions that can reach the code, an in-memory
  byte stream (\<open>io.BytesIO\<close>), and an image object with the attributes the code reads.
  \<open>is_animated\<close> is \<open>None\<close> for an image class without that attribute.
\<close>

datatype pyval = PyInt int | PyOther pystr

datatype exn = UnidentifiedImageError pystr | IndexError pystr | OtherException pystr

fun exn_str :: "exn \<Rightarrow> pystr" where
  "exn_str (UnidentifiedImageError m) = m"
| "exn_str (IndexError m) = m"
| "exn_str (OtherException m) = m"

record bytes_io =
  content :: "nat list"
  position :: nat

record image =
  format :: "pystr option"
  mode :: pystr
  info :: "(pystr \<times> pyval) list"
  im_size :: "nat \<times> nat"
  is_animated :: "bool option"
  pixels :: "nat list"

record save_kwargs =
  kw_sizes :: "(int \<times> int) list option"
  kw_save_all :: "bool option"
  kw_append_images :: "image list option"
  kw_loop :: "pyval option"
  kw_duration :: "pyval option"
  kw_disposal :: "int option"

definition no_kwargs :: save_kwargs where
  "no_kwargs = \<lparr>kw_sizes = None, kw_save_all = None, kw_append_images = None, kw_loop = None,
     kw_duration = None, kw_disposal = None\<rparr>"

text \<open>
  What iterating \<open>ImageSequence.Iterator(img)\<close> produces. Each step seeks the image
  object itself to the next frame and yields that same object, so \<open>Next f rest\<close> carries
  the state \<open>f\<close> of the object at that frame; the iteration ends normally or with an
  exception of the seek, which leaves the object in some state.
\<close>

datatype frame_iter = StopIteration | Next image frame_iter | Raise exn image

text \<open>
  The operations of the imaging library the code calls. They are not part of the
  repository, so they are parameters of the model. An operation that can raise returns a
  sum; one that mutates its receiver before it may raise (\<open>paste\<close>, \<open>save\<close> into a stream)
  returns the receiver's new state together with the exception, if any.
\<close>

record pil =
  Image_open :: "nat list \<Rightarrow> exn + image"
  img_load :: "image \<Rightarrow> exn + image"
  Image_new :: "pystr \<Rightarrow> nat \<times> nat \<Rightarrow> int \<times> int \<times> int \<Rightarrow> exn + image"
  img_split_last :: "image \<Rightarrow> exn + image"
  img_paste :: "image \<Rightarrow> image \<Rightarrow> image option \<Rightarrow> image \<times> exn option"
  img_convert :: "image \<Rightarrow> pystr \<Rightarrow> exn + image"
  img_save :: "image \<Rightarrow> bytes_io \<Rightarrow> pystr \<Rightarrow> save_kwargs \<Rightarrow> bytes_io \<times> exn option"
  ImageSequence_Iterator :: "image \<Rightarrow> frame_iter"

record uploaded_file =
  name :: pystr
  data :: "nat list"

definition read_image_from_upload :: "pil \<Rightarrow> uploaded_file \<Rightarrow> exn + image" where
  "read_image_from_upload L uploaded =
     (case Image_open L (data uploaded) of
        Inl e \<Rightarrow> Inl e
      | Inr img \<Rightarrow> img_load L img)"

definition image_format_from_pil :: "image \<Rightarrow> pystr \<Rightarrow> pystr" where
  "image_format_from_pil img filename_hint =
     (let fmt = format img
      in if fmt \<noteq> None \<and> fmt \<noteq> Some [] then py_upper (the fmt)
         else let ext = py_upper (dropWhile (\<lambda>c. c = 46) (snd (splitext filename_hint)))
              in if filename_hint \<noteq> [] \<and> ext \<noteq> [] then ext
                 else py_upper (mode img))"

section \<open>Icon sizes\<close>

text \<open>
  \<open>int(p)\<close> on a string, \<open>None\<close> for \<open>ValueError\<close>: white space around, an optional
  sign, then decimal digits with single underscores allowed between digits. CPython also
  accepts the decimal digits of other scripts and, in recent versions, refuses literals
  of several thousand digits; neither is modelled, and the theorems on
  \<open>parse_custom_sizes\<close> depend on \<open>py_int\<close> only through its result.
\<close>

definition is_digit :: "nat \<Rightarrow> bool" where
  "is_digit c \<longleftrightarrow> 48 \<le> c \<and> c \<le> 57"

fun parse_digits :: "pystr \<Rightarrow> int \<Rightarrow> int option" where
  "parse_digits [] acc = Some acc"
| "parse_digits [c] acc = (if is_digit c then Some (10 * acc + int (c - 48)) else None)"
| "parse_digits (c # d # ds) acc =
     (if is_digit c then parse_digits (d # ds) (10 * acc + int (c - 48))
      else if c = 95 \<and> is_digit d then parse_digits ds (10 * acc + int (d - 48))
      else None)"

definition py_int :: "pystr \<Rightarrow> int option" where
  "py_int s =
     (case py_strip s of
        [] \<Rightarrow> None
      | c # cs \<Rightarrow>
          (let sgn = (if c = 45 then - 1 else 1);
               body = (if c = 45 \<or> c = 43 then cs else c # cs)
           in case body of
                [] \<Rightarrow> None
              | d # ds \<Rightarrow>
                  if is_digit d then map_option (\<lambda>v. sgn * v) (parse_digits ds (int (d - 48)))
                  else None))"

text \<open>\<open>text.split(",")\<close>: the pieces between the separators, at least one piece.\<close>

fun split_on :: "nat \<Rightarrow> pystr \<Rightarrow> pystr list" where
  "split_on sep [] = [[]]"
| "split_on sep (c # cs) =
     (if c = sep then [] # split_on sep cs
      else (case split_on sep cs of p # ps \<Rightarrow> (c # p) # ps | [] \<Rightarrow> [[c]]))"

text \<open>
  The loop of \<open>parse_custom_sizes\<close>; \<open>None\<close> is the exception of \<open>int(p)\<close>, which leaves
  the loop and is caught by the \<open>except\<close> clause around the whole body.
\<close>

fun sizes_loop :: "pystr list \<Rightarrow> (int \<times> int) list \<Rightarrow> (int \<times> int) list option" where
  "sizes_loop [] sizes = Some sizes"
| "sizes_loop (p # ps) sizes =
     (case py_int p of
        None \<Rightarrow> None
      | Some val \<Rightarrow> sizes_loop ps (if val > 0 then sizes @ [(val, val)] else sizes))"

text \<open>The list \<open>parts\<close>: the pieces that are not blank, each stripped.\<close>

definition size_parts :: "pystr \<Rightarrow> pystr list" where
  "size_parts text = map py_strip (filter (\<lambda>p. py_strip p \<noteq> []) (split_on 44 text))"

definition parse_custom_sizes :: "pystr \<Rightarrow> (int \<times> int) list" where
  "parse_custom_sizes text =
     (case sizes_loop (size_parts text) [] of Some sizes \<Rightarrow> sizes | None \<Rightarrow> [])"

text \<open>The choice of \<open>ico_sizes\<close> in \<open>main\<close> from the preset and the custom text.\<close>

definition prepare_ico_sizes :: "pystr \<Rightarrow> pystr \<Rightarrow> (int \<times> int) list" where
  "prepare_ico_sizes ico_preset custom_sizes_text =
     (if startswith ico_preset (str ''Default'') \<or> startswith ico_preset (str ''All'')
      then [(256, 256), (128, 128), (64, 64), (48, 48), (32, 32), (16, 16)]
      else if startswith ico_preset (str ''Small'') then [(16, 16), (32, 32)]
      else if startswith ico_preset (str ''Medium'') then [(64, 64), (128, 128)]
      else if startswith ico_preset (str ''Large'') then [(256, 256)]
      else if startswith ico_preset (str ''Custom'')
      then (let parsed = parse_custom_sizes custom_sizes_text
            in if parsed \<noteq> [] then parsed else [(256, 256), (128, 128), (64, 64)])
      else [(256, 256), (128, 128), (64, 64)])"

section \<open>Conversion\<close>

text \<open>
  The first block of \<open>convert_image_to_bytes\<close>: the image to save, composited onto the
  background colour for a JPEG target when the code's test for transparency holds.
\<close>

definition has_transparency :: "image \<Rightarrow> bool" where
  "has_transparency img \<longleftrightarrow>
     mode img = str ''RGBA'' \<or> mode img = str ''LA'' \<or>
     (mode img = str ''P'' \<and> str ''transparency'' \<in> fst ` set (info img))"

definition jpeg_background :: "pil \<Rightarrow> image \<Rightarrow> pystr \<Rightarrow> int \<times> int \<times> int \<Rightarrow> exn + image" where
  "jpeg_background L img target jpeg_bg_rgb =
     (if target = str ''JPEG'' then
        if has_transparency img then
          (case Image_new L (str ''RGB'') (im_size img) jpeg_bg_rgb of
             Inl e \<Rightarrow> Inl e
           | Inr bg \<Rightarrow>
               if mode img = str ''RGBA'' \<or> mode img = str ''LA'' then
                 (case img_split_last L img of
                    Inl e \<Rightarrow> Inl e
                  | Inr alpha \<Rightarrow>
                      (case img_paste L bg img (Some alpha) of
                         (bg', Some e) \<Rightarrow> Inl e
                       | (bg', None) \<Rightarrow> Inr bg'))
               else
                 (case img_paste L bg img None of
                    (bg', None) \<Rightarrow> Inr bg'
                  | (bg', Some e) \<Rightarrow>
                      (case img_convert L img (str ''RGB'') of
                         Inl e' \<Rightarrow> Inl e'
                       | Inr rgb \<Rightarrow>
                           (case img_paste L bg' rgb None of
                              (bg'', Some e'') \<Rightarrow> Inl e''
                            | (bg'', None) \<Rightarrow> Inr bg''))))
        else img_convert L img (str ''RGB'')
      else Inr img)"

text \<open>
  The loop over the frames. The second component of the result is the state of the image
  object when the loop is left: the frame it was last moved to.
\<close>

fun collect_frames :: "pil \<Rightarrow> frame_iter \<Rightarrow> image list \<Rightarrow> image \<Rightarrow> (exn + image list) \<times> image" where
  "collect_frames L StopIteration frames img = (Inr frames, img)"
| "collect_frames L (Raise e img') frames img = (Inl e, img')"
| "collect_frames L (Next frame rest) frames img =
     (case img_convert L frame (str ''RGBA'') of
        Inl e \<Rightarrow> (Inl e, frame)
      | Inr rgba \<Rightarrow> collect_frames L rest (frames @ [rgba]) frame)"

text \<open>
  The branch that preserves a GIF animation: \<open>animated_attempt\<close> is the body of its
  \<open>try\<close>, with the stream and the exception it ends with, if any, and the state of the
  image object afterwards. The branch is entered for a GIF target only, where
  \<open>img_to_save\<close> is the object \<open>img\<close> itself, so the \<open>except\<close> clause converts that object
  in the state the loop left it in.
\<close>

definition animated_attempt ::
    "pil \<Rightarrow> image \<Rightarrow> bytes_io \<Rightarrow> (bytes_io \<times> exn option) \<times> image" where
  "animated_attempt L img out_buffer =
     (let duration = dict_get (info img) (str ''duration'') (PyInt 100);
          loop = dict_get (info img) (str ''loop'') (PyInt 0);
          (collected, img_to_save) = collect_frames L (ImageSequence_Iterator L img) [] img
      in (case collected of
            Inl e \<Rightarrow> (out_buffer, Some e)
          | Inr [] \<Rightarrow> (out_buffer, Some (IndexError (str ''list index out of range'')))
          | Inr (first # others) \<Rightarrow>
              img_save L first out_buffer (str ''GIF'')
                \<lparr>kw_sizes = None, kw_save_all = Some True, kw_append_images = Some others,
                 kw_loop = Some loop, kw_duration = Some duration, kw_disposal = Some 2\<rparr>,
          img_to_save))"

definition save_animated :: "pil \<Rightarrow> image \<Rightarrow> bytes_io \<Rightarrow> bytes_io \<times> exn option" where
  "save_animated L img out_buffer =
     (case animated_attempt L img out_buffer of
        ((buf, None), img_to_save) \<Rightarrow> (buf, None)
      | ((buf, Some e), img_to_save) \<Rightarrow>
          (case img_convert L img_to_save (str ''RGBA'') of
             Inl e' \<Rightarrow> (buf, Some e')
           | Inr rgba \<Rightarrow> img_save L rgba buf (str ''GIF'') no_kwargs))"

text \<open>The regular save, with its retry.\<close>

definition save_regular ::
    "pil \<Rightarrow> image \<Rightarrow> bytes_io \<Rightarrow> pystr \<Rightarrow> save_kwargs \<Rightarrow> bytes_io \<times> exn option" where
  "save_regular L img_to_save out_buffer target kwargs =
     (case img_save L img_to_save out_buffer target kwargs of
        (buf, None) \<Rightarrow> (buf, None)
      | (buf, Some e) \<Rightarrow>
          (case img_convert L img_to_save (str ''RGBA'') of
             Inl e' \<Rightarrow> (buf, Some e')
           | Inr temp \<Rightarrow>
               img_save L temp buf (if target \<noteq> str ''ICO'' then target else str ''PNG'') kwargs))"

text \<open>The keyword arguments of the regular save and the name of the output file.\<close>

definition ico_save_kwargs :: "pystr \<Rightarrow> (int \<times> int) list option \<Rightarrow> save_kwargs" where
  "ico_save_kwargs target ico_sizes =
     (if target = str ''ICO'' \<and> ico_sizes \<noteq> None \<and> ico_sizes \<noteq> Some []
      then no_kwargs\<lparr>kw_sizes := ico_sizes\<rparr> else no_kwargs)"

definition output_filename :: "pystr \<Rightarrow> pystr \<Rightarrow> pystr" where
  "output_filename original_filename target =
     fst (splitext (basename original_filename)) @ get_extension_for_format target"

definition new_buffer :: bytes_io where
  "new_buffer = \<lparr>content = [], position = 0\<rparr>"

definition convert_image_to_bytes ::
    "pil \<Rightarrow> image \<Rightarrow> pystr \<Rightarrow> pystr \<Rightarrow> int \<times> int \<times> int \<Rightarrow> (int \<times> int) list option \<Rightarrow> bool
       \<Rightarrow> exn + (nat list \<times> pystr)" where
  "convert_image_to_bytes L img target_format original_filename jpeg_bg_rgb ico_sizes
       preserve_animation =
     (let target = normalize_format_name target_format;
          out_buffer = new_buffer
      in case jpeg_background L img target jpeg_bg_rgb of
           Inl e \<Rightarrow> Inl e
         | Inr img_to_save \<Rightarrow>
             (let kwargs = ico_save_kwargs target ico_sizes;
                  saved =
                    (if target = str ''GIF'' \<and> is_animated img = Some True \<and> preserve_animation
                     then save_animated L img out_buffer
                     else save_regular L img_to_save out_buffer target kwargs)
              in case saved of
                   (buf, Some e) \<Rightarrow> Inl e
                 | (buf, None) \<Rightarrow> Inr (content buf, output_filename original_filename target)))"

section \<open>The batch loop of main\<close>

record settings =
  have_fmt :: pystr
  want_fmt :: pystr
  force_convert :: bool
  preserve_animation :: bool
  jpeg_rgb :: "int \<times> int \<times> int"
  ico_sizes :: "(int \<times> int) list"

record batch =
  converted_files :: "(nat list \<times> pystr \<times> pystr) list"
  skipped_files :: "(pystr \<times> pystr) list"
  errors :: "(pystr \<times> pystr) list"

definition no_files :: batch where
  "no_files = \<lparr>converted_files = [], skipped_files = [], errors = []\<rparr>"

text \<open>One pass of the body of \<open>for up in uploaded_files\<close>, on the three lists.\<close>

definition loop_body :: "pil \<Rightarrow> settings \<Rightarrow> batch \<Rightarrow> uploaded_file \<Rightarrow> batch" where
  "loop_body L cfg st up =
     (case read_image_from_upload L up of
        Inl (UnidentifiedImageError m) \<Rightarrow>
          st\<lparr>skipped_files := skipped_files st @ [(name up, str ''Unidentified image'')]\<rparr>
      | Inl e \<Rightarrow> st\<lparr>errors := errors st @ [(name up, exn_str e)]\<rparr>
      | Inr img \<Rightarrow>
          (let detected_format = image_format_from_pil img (name up);
               selected_input = normalize_format_name (have_fmt cfg);
               detected_norm = normalize_format_name detected_format
           in if selected_input \<noteq> detected_norm \<and> \<not> force_convert cfg then
                st\<lparr>skipped_files := skipped_files st
                     @ [(name up, str ''Format mismatch (detected: '' @ detected_norm @ str '')'')]\<rparr>
              else
                (case convert_image_to_bytes L img (want_fmt cfg) (name up) (jpeg_rgb cfg)
                        (Some (ico_sizes cfg)) (preserve_animation cfg) of
                   Inl e \<Rightarrow> st\<lparr>errors := errors st @ [(name up, exn_str e)]\<rparr>
                 | Inr (out_bytes, out_filename) \<Rightarrow>
                     st\<lparr>converted_files := converted_files st
                          @ [(out_bytes, out_filename, detected_norm)]\<rparr>)))"

fun main_loop :: "pil \<Rightarrow> settings \<Rightarrow> batch \<Rightarrow> uploaded_file list \<Rightarrow> batch" where
  "main_loop L cfg st [] = st"
| "main_loop L cfg st (up # uploaded_files) = main_loop L cfg (loop_body L cfg st up) uploaded_files"

section \<open>Sample inputs\<close>

text \<open>
  A small imaging library and some uploads, on which the functions above are evaluated
  in the examples that follow the theorems. The first byte of the data selects the
  upload: no data at all is no image, 0 a truncated file, 1 a PNG in mode RGBA, 2 a JPEG
  in mode RGB, 3 an animated GIF of three frames shown for 100, 150 and 200 ms, 4 a TIFF in
  mode CMYK. Saving appends the pixels of the image and of the appended images to the
  stream; PNG and ICO refuse mode CMYK and JPEG refuses mode RGBA.
\<close>

definition sample_image :: "pystr \<Rightarrow> pystr \<Rightarrow> nat list \<Rightarrow> image" where
  "sample_image fmt m px =
     \<lparr>format = Some fmt, mode = m, info = [], im_size = (1, 1), is_animated = None, pixels = px\<rparr>"

definition sample_gif :: "nat list \<Rightarrow> image" where
  "sample_gif px =
     \<lparr>format = Some (str ''GIF''), mode = str ''P'',
      info = [(str ''duration'', PyInt 100), (str ''loop'', PyInt 0)],
      im_size = (1, 1), is_animated = Some True, pixels = px\<rparr>"

definition sample_frame :: "image \<Rightarrow> nat \<Rightarrow> int \<Rightarrow> image" where
  "sample_frame img k d =
     img\<lparr>info := [(str ''duration'', PyInt d), (str ''loop'', PyInt 0)], pixels := [k]\<rparr>"

definition sample_open :: "nat list \<Rightarrow> exn + image" where
  "sample_open d =
     (case d of
        [] \<Rightarrow> Inl (UnidentifiedImageError (str ''cannot identify image file''))
      | t # px \<Rightarrow>
          if t = 0 then Inl (OtherException (str ''image file is truncated''))
          else if t = 1 then Inr (sample_image (str ''PNG'') (str ''RGBA'') px)
          else if t = 2 then Inr (sample_image (str ''JPEG'') (str ''RGB'') px)
          else if t = 3 then Inr (sample_gif px)
          else Inr (sample_image (str ''TIFF'') (str ''CMYK'') px))"

definition sample_save :: "image \<Rightarrow> bytes_io \<Rightarrow> pystr \<Rightarrow> save_kwargs \<Rightarrow> bytes_io \<times> exn option" where
  "sample_save img buf fmt kw =
     (if (fmt = str ''PNG'' \<or> fmt = str ''ICO'') \<and> mode img = str ''CMYK''
      then (buf, Some (OtherException (str ''cannot write mode CMYK'')))
      else if fmt = str ''JPEG'' \<and> mode img = str ''RGBA''
      then (buf, Some (OtherException (str ''cannot write mode RGBA as JPEG'')))
      else (let out = pixels img
                  @ concat (map pixels (case kw_append_images kw of Some l \<Rightarrow> l | None \<Rightarrow> []))
            in (\<lparr>content = content buf @ out, position = position buf + length out\<rparr>, None)))"

definition sample_pil :: pil where
  "sample_pil =
     \<lparr>Image_open = sample_open,
      img_load = Inr,
      Image_new = (\<lambda>m sz c. Inr \<lparr>format = None, mode = m, info = [], im_size = sz,
                                 is_animated = None, pixels = []\<rparr>),
      img_split_last = (\<lambda>img. Inr (img\<lparr>mode := str ''L''\<rparr>)),
      img_paste = (\<lambda>bg src alpha. (bg\<lparr>pixels := pixels src\<rparr>, None)),
      img_convert = (\<lambda>img m. Inr (img\<lparr>format := None, mode := m\<rparr>)),
      img_save = sample_save,
      ImageSequence_Iterator =
        (\<lambda>img. if is_animated img = Some True
               then Next (sample_frame img 0 100)
                      (Next (sample_frame img 1 150) (Next (sample_frame img 2 200) StopIteration))
               else Next img StopIteration)\<rparr>"

text \<open>
  Two variants of the library: one whose encoder cannot write several frames, and one
  whose every save fails.
\<close>

definition no_animation_pil :: pil where
  "no_animation_pil =
     sample_pil\<lparr>img_save := (\<lambda>img buf fmt kw.
        if kw_save_all kw = Some True
        then (buf, Some (OtherException (str ''cannot write frames'')))
        else sample_save img buf fmt kw)\<rparr>"

definition full_disk_pil :: pil where
  "full_disk_pil =
     sample_pil\<lparr>img_save := (\<lambda>img buf fmt kw. (buf, Some (OtherException (str ''disk full''))))\<rparr>"

definition sample_settings :: settings where
  "sample_settings =
     \<lparr>have_fmt = str ''PNG'', want_fmt = str ''GIF'', force_convert = False,
      preserve_animation = True, jpeg_rgb = (255, 255, 255),
      ico_sizes = [(256, 256), (128, 128), (64, 64)]\<rparr>"

section \<open>Properties of the format registry\<close>

lemmas string_defs =
  str_def py_lower_def py_upper_def py_strip_def py_isspace_def lower_cp_def upper_cp_def

lemma map_of_mapping: "map_of mapping n = map_option format_name (spec_lookup n)"
  by (simp add: mapping_def spec_lookup_def str_def)

lemma isspace_upper_cp: "py_isspace (upper_cp c) = py_isspace c"
  by (auto simp: py_isspace_def upper_cp_def)

lemma isspace_lower_cp: "py_isspace (lower_cp c) = py_isspace c"
  by (auto simp: py_isspace_def lower_cp_def)

lemma strip_map:
  assumes "\<And>c. py_isspace (f c) = py_isspace c"
  shows "py_strip (map f s) = map f (py_strip s)"
proof -
  have comp: "py_isspace \<circ> f = py_isspace"
    using assms by (simp add: fun_eq_iff)
  show ?thesis
    by (simp add: py_strip_def dropWhile_map rev_map comp)
qed

lemma dropWhile_id: "xs = [] \<or> \<not> P (hd xs) \<Longrightarrow> dropWhile P xs = xs"
  by (cases xs) auto

lemma strip_ends:
  "py_strip s = [] \<or> (\<not> py_isspace (hd (py_strip s)) \<and> \<not> py_isspace (last (py_strip s)))"
proof (cases "py_strip s = []")
  case True
  then show ?thesis by simp
next
  case False
  let ?t = "dropWhile py_isspace s"
  let ?u = "dropWhile py_isspace (rev ?t)"
  have u: "?u \<noteq> []"
    using False by (simp add: py_strip_def)
  have l: "\<not> py_isspace (hd ?u)"
    using u by (metis hd_dropWhile)
  have "last (py_strip s) = hd ?u"
    using u by (simp add: py_strip_def last_rev)
  moreover have "hd (py_strip s) = last ?u"
    using u by (simp add: py_strip_def hd_rev)
  moreover have "last ?u = last (rev ?t)"
    using u by (metis append_Nil2 dropWhile_eq_Nil_conv last_appendR takeWhile_dropWhile_id)
  moreover have tne: "?t \<noteq> []"
    using u by (metis dropWhile.simps(1) rev.simps(1))
  moreover have "\<not> py_isspace (hd ?t)"
    using tne by (metis hd_dropWhile)
  ultimately show ?thesis
    using l by (simp add: last_rev)
qed

lemma strip_fixed:
  assumes "s = [] \<or> (\<not> py_isspace (hd s) \<and> \<not> py_isspace (last s))"
  shows "py_strip s = s"
proof (cases "s = []")
  case True
  then show ?thesis by (simp add: py_strip_def)
next
  case False
  then have a: "dropWhile py_isspace s = s"
    using assms by (simp add: dropWhile_id)
  have "rev s \<noteq> []"
    using False by simp
  moreover have "hd (rev s) = last s"
    using False by (simp add: hd_rev)
  ultimately have "dropWhile py_isspace (rev s) = rev s"
    using assms False by (simp add: dropWhile_id)
  then show ?thesis
    using a by (simp add: py_strip_def)
qed

lemma strip_idem: "py_strip (py_strip s) = py_strip s"
  using strip_ends [of s] by (rule strip_fixed)

lemma lower_upper_lower_cp: "c < 128 \<Longrightarrow> lower_cp (upper_cp (lower_cp c)) = lower_cp c"
  by (auto simp: lower_cp_def upper_cp_def)

lemma ascii_strip: "ascii s \<Longrightarrow> ascii (py_strip s)"
  unfolding ascii_def py_strip_def list_all_iff
  by (metis (no_types, lifting) set_dropWhileD set_rev)

lemma lower_upper_lower: "ascii t \<Longrightarrow> py_lower (py_upper (py_lower t)) = py_lower t"
  by (simp add: ascii_def py_lower_def py_upper_def list_all_iff lower_upper_lower_cp)

lemma normalize_canonical: "normalize_format_name (format_name f) = format_name f"
  by (cases f)
    (simp_all add: normalize_format_name_def dict_get_def mapping_def str_def py_lower_def
      py_upper_def py_strip_def py_isspace_def lower_cp_def upper_cp_def)

lemma normalize_cases:
  "normalize_format_name s =
     (case spec_lookup (py_lower (py_strip s)) of
        Some f \<Rightarrow> format_name f
      | None \<Rightarrow> py_upper (py_lower (py_strip s)))"
proof (cases "s = []")
  case True
  then show ?thesis
    by (simp add: normalize_format_name_def py_strip_def py_lower_def py_upper_def
        spec_lookup_def str_def)
next
  case False
  then show ?thesis
    by (simp add: normalize_format_name_def dict_get_def map_of_mapping split: option.splits)
qed

text \<open>
  C1, as the claim states it, fails: the name \<open>xyz\<close> is none of the seven formats nor an
  alias of one, and \<open>normalize_format_name\<close> does not fail on it but returns \<open>XYZ\<close>.
\<close>

theorem normalize_unknown_returns_value:
  "spec_lookup (py_lower (py_strip (str ''xyz''))) = None \<and>
   normalize_format_name (str ''xyz'') = str ''XYZ''"
  by (simp add: normalize_format_name_def spec_lookup_def dict_get_def mapping_def str_def
      py_lower_def py_upper_def py_strip_def py_isspace_def lower_cp_def upper_cp_def)

text \<open>
  C1, as amended: \<open>normalize_format_name\<close> returns a value for every name. When the name,
  stripped of surrounding white space and in lower case, is the name of one of the seven
  formats or one of the aliases jpg, icon, tif, the value is the canonical name of that
  format; for every other name it is the stripped name in upper case.
\<close>

theorem normalize_format_name_result:
  "normalize_format_name s =
     (case spec_lookup (py_lower (py_strip s)) of
        Some f \<Rightarrow> format_name f
      | None \<Rightarrow> py_upper (py_lower (py_strip s)))"
  by (rule normalize_cases)

text \<open>
  C10, as the claim states it, fails on a string that is not ASCII: the name made of
  U+0131 (dotless i) followed by \<open>con\<close> normalizes to \<open>ICON\<close>, because its lower case is
  not a key of the table and its upper case is \<open>ICON\<close>; and \<open>ICON\<close> normalizes to \<open>ICO\<close>.
\<close>

theorem normalize_not_idempotent_dotless_i:
  "normalize_format_name [305, 99, 111, 110] = str ''ICON'' \<and>
   normalize_format_name (normalize_format_name [305, 99, 111, 110]) = str ''ICO'' \<and>
   normalize_format_name (normalize_format_name [305, 99, 111, 110])
     \<noteq> normalize_format_name [305, 99, 111, 110]"
  by (simp add: normalize_format_name_def spec_lookup_def dict_get_def mapping_def str_def
      py_lower_def py_upper_def py_strip_def py_isspace_def lower_cp_def upper_cp_def)

text \<open>
  C10, as amended: on every ASCII string, normalizing the result of
  \<open>normalize_format_name\<close> again gives the same value, also for names outside the
  enumerated set.
\<close>

theorem normalize_idempotent_ascii:
  assumes "ascii s"
  shows "normalize_format_name (normalize_format_name s) = normalize_format_name s"
proof (cases "spec_lookup (py_lower (py_strip s))")
  case (Some f)
  then have "normalize_format_name s = format_name f"
    by (simp add: normalize_cases)
  then show ?thesis
    by (simp add: normalize_canonical)
next
  case None
  let ?n = "py_lower (py_strip s)"
  have r: "normalize_format_name s = py_upper ?n"
    using None by (simp add: normalize_cases)
  have "py_strip (py_upper ?n) = py_upper (py_lower (py_strip (py_strip s)))"
    by (simp add: py_upper_def py_lower_def strip_map isspace_upper_cp isspace_lower_cp)
  then have "py_lower (py_strip (py_upper ?n)) = ?n"
    using assms by (simp add: strip_idem lower_upper_lower ascii_strip)
  then have "normalize_format_name (py_upper ?n) = py_upper ?n"
    using None by (simp add: normalize_cases)
  then show ?thesis
    using r by simp
qed

theorem normalize_idempotent_ascii_witness:
  "ascii (str '' Tif '') \<and>
   normalize_format_name (str '' Tif '') = str ''TIFF'' \<and>
   normalize_format_name (normalize_format_name (str '' Tif '')) = str ''TIFF''"
proof -
  have a: "ascii (str '' Tif '')"
    by (simp add: ascii_def str_def)
  have v: "normalize_format_name (str '' Tif '') = str ''TIFF''"
    by (simp add: normalize_format_name_def dict_get_def mapping_def string_defs)
  from normalize_idempotent_ascii [OF a] a v show ?thesis
    by simp
qed

section \<open>Properties of format detection\<close>

lemmas registry_defs =
  normalize_format_name_def get_extension_for_format_def dict_get_def mapping_def ext_map_def

lemmas path_defs = splitext_def basename_def rfind_def upt_rec

lemmas sample_defs =
  sample_pil_def sample_open_def sample_save_def sample_image_def sample_gif_def
  sample_frame_def sample_settings_def no_animation_pil_def full_disk_pil_def

lemmas convert_defs =
  convert_image_to_bytes_def jpeg_background_def has_transparency_def save_regular_def
  save_animated_def animated_attempt_def ico_save_kwargs_def output_filename_def new_buffer_def
  no_kwargs_def

lemmas loop_defs =
  loop_body_def read_image_from_upload_def image_format_from_pil_def no_files_def

lemma py_upper_Nil_iff: "py_upper s = [] \<longleftrightarrow> s = []"
  by (simp add: py_upper_def)

lemma splitext_Nil: "splitext [] = ([], [])"
  by (simp add: splitext_def rfind_def)

text \<open>
  C9: \<open>image_format_from_pil\<close> has three tiers. It returns the format of the image, in
  upper case, when the image has one; otherwise the extension of the file name (what
  \<open>os.path.splitext\<close> gives, without its dot), in upper case, when that is not empty;
  otherwise the pixel mode, in upper case.
\<close>

theorem image_format_from_pil_tiers:
  "(format img = Some f \<and> f \<noteq> [] \<longrightarrow> image_format_from_pil img hint = py_upper f) \<and>
   ((format img = None \<or> format img = Some []) \<and>
      dropWhile (\<lambda>c. c = 46) (snd (splitext hint)) \<noteq> [] \<longrightarrow>
    image_format_from_pil img hint = py_upper (dropWhile (\<lambda>c. c = 46) (snd (splitext hint)))) \<and>
   ((format img = None \<or> format img = Some []) \<and>
      dropWhile (\<lambda>c. c = 46) (snd (splitext hint)) = [] \<longrightarrow>
    image_format_from_pil img hint = py_upper (mode img))"
  by (cases "hint = []")
    (auto simp: image_format_from_pil_def Let_def py_upper_Nil_iff splitext_Nil)

theorem image_format_from_pil_tiers_witness:
  "image_format_from_pil (sample_image (str ''png'') (str ''RGBA'') []) (str ''x.jpg'') = str ''PNG'' \<and>
   image_format_from_pil ((sample_image [] (str ''RGB'') [])\<lparr>format := None\<rparr>) (str ''dir/photo.Jpeg'')
     = str ''JPEG'' \<and>
   image_format_from_pil ((sample_image [] (str ''rgb'') [])\<lparr>format := None\<rparr>) (str ''dir.d/photo.'')
     = str ''RGB''"
proof -
  note a = image_format_from_pil_tiers
    [of "sample_image (str ''png'') (str ''RGBA'') []" "str ''png''" "str ''x.jpg''"]
  note b = image_format_from_pil_tiers
    [of "(sample_image [] (str ''RGB'') [])\<lparr>format := None\<rparr>" "[]" "str ''dir/photo.Jpeg''"]
  note c = image_format_from_pil_tiers
    [of "(sample_image [] (str ''rgb'') [])\<lparr>format := None\<rparr>" "[]" "str ''dir.d/photo.''"]
  from a b c show ?thesis
    by (simp add: sample_image_def string_defs path_defs)
qed

section \<open>Properties of the icon sizes\<close>

lemmas int_defs = py_int_def is_digit_def size_parts_def

lemma sizes_loop_eq:
  "sizes_loop ps acc =
     (if list_all (\<lambda>p. py_int p \<noteq> None) ps
      then Some (acc @ map (\<lambda>v. (v, v)) (filter (\<lambda>v. v > 0) (map (\<lambda>p. the (py_int p)) ps)))
      else None)"
  by (induction ps arbitrary: acc) (auto split: option.splits)

lemma starts_custom:
  "\<not> startswith (str ''Custom'' @ r) (str ''Default'')"
  "\<not> startswith (str ''Custom'' @ r) (str ''All'')"
  "\<not> startswith (str ''Custom'' @ r) (str ''Small'')"
  "\<not> startswith (str ''Custom'' @ r) (str ''Medium'')"
  "\<not> startswith (str ''Custom'' @ r) (str ''Large'')"
  "startswith (str ''Custom'' @ r) (str ''Custom'')"
  by (simp_all add: startswith_def str_def)

text \<open>
  C3, as the claim states it, fails: in \<open>16,abc,32\<close> the tokens 16 and 32 are positive
  integers and \<open>abc\<close> is not a number, but the token \<open>abc\<close> is not skipped on its own:
  \<open>int\<close> raises on it, the \<open>except\<close> clause around the whole body returns the empty
  list, and the custom preset then falls back to the built-in sizes.
\<close>

theorem parse_custom_sizes_bad_token_drops_all:
  "size_parts (str ''16,abc,32'') = [str ''16'', str ''abc'', str ''32''] \<and>
   py_int (str ''16'') = Some 16 \<and> py_int (str ''abc'') = None \<and> py_int (str ''32'') = Some 32 \<and>
   parse_custom_sizes (str ''16,abc,32'') = [] \<and>
   prepare_ico_sizes (str ''Custom (comma separated)'') (str ''16,abc,32'')
     = [(256, 256), (128, 128), (64, 64)]"
  by (simp add: parse_custom_sizes_def prepare_ico_sizes_def startswith_def int_defs string_defs)

text \<open>
  C3, as amended. The text is cut at the commas, blank pieces are dropped and the others
  stripped. When every remaining token is an integer literal, the result holds, in order,
  the pair \<open>(v, v)\<close> for each token whose value \<open>v\<close> is positive: the tokens that are not
  positive are skipped one by one. When some token is not an integer literal, the result is
  empty. For the custom preset the built-in sizes 256, 128, 64 are used exactly when the
  result of parsing is empty.
\<close>

theorem parse_custom_sizes_result:
  "parse_custom_sizes text =
     (if list_all (\<lambda>p. py_int p \<noteq> None) (size_parts text)
      then map (\<lambda>v. (v, v)) (filter (\<lambda>v. v > 0) (map (\<lambda>p. the (py_int p)) (size_parts text)))
      else []) \<and>
   prepare_ico_sizes (str ''Custom'' @ r) text =
     (if parse_custom_sizes text = [] then [(256, 256), (128, 128), (64, 64)]
      else parse_custom_sizes text)"
  by (simp add: parse_custom_sizes_def sizes_loop_eq prepare_ico_sizes_def starts_custom Let_def)

section \<open>Properties of the batch loop\<close>

lemma loop_body_app:
  "loop_body L cfg st up =
     \<lparr>converted_files = converted_files st @ converted_files (loop_body L cfg no_files up),
      skipped_files = skipped_files st @ skipped_files (loop_body L cfg no_files up),
      errors = errors st @ errors (loop_body L cfg no_files up)\<rparr>"
  by (cases st)
    (simp add: loop_body_def no_files_def Let_def split: sum.splits exn.splits prod.splits)

lemma loop_body_one:
  "length (converted_files (loop_body L cfg no_files up))
     + length (skipped_files (loop_body L cfg no_files up))
     + length (errors (loop_body L cfg no_files up)) = 1"
  by (simp add: loop_body_def no_files_def Let_def split: sum.splits exn.splits prod.splits)

lemma main_loop_app:
  "main_loop L cfg st ups =
     \<lparr>converted_files =
        converted_files st @ concat (map (\<lambda>u. converted_files (loop_body L cfg no_files u)) ups),
      skipped_files =
        skipped_files st @ concat (map (\<lambda>u. skipped_files (loop_body L cfg no_files u)) ups),
      errors = errors st @ concat (map (\<lambda>u. errors (loop_body L cfg no_files u)) ups)\<rparr>"
proof (induction ups arbitrary: st)
  case Nil
  show ?case by (cases st) simp
next
  case (Cons u ups)
  show ?case
    by (simp add: Cons.IH) (subst loop_body_app, simp)+
qed

lemma main_loop_count:
  "length (converted_files (main_loop L cfg st ups)) + length (skipped_files (main_loop L cfg st ups))
     + length (errors (main_loop L cfg st ups))
   = length (converted_files st) + length (skipped_files st) + length (errors st) + length ups"
proof (induction ups arbitrary: st)
  case Nil
  show ?case by simp
next
  case (Cons u ups)
  have a: "converted_files (loop_body L cfg st u)
      = converted_files st @ converted_files (loop_body L cfg no_files u)"
    by (subst loop_body_app) simp
  have b: "skipped_files (loop_body L cfg st u)
      = skipped_files st @ skipped_files (loop_body L cfg no_files u)"
    by (subst loop_body_app) simp
  have c: "errors (loop_body L cfg st u) = errors st @ errors (loop_body L cfg no_files u)"
    by (subst loop_body_app) simp
  have "length (converted_files (loop_body L cfg st u)) + length (skipped_files (loop_body L cfg st u))
     + length (errors (loop_body L cfg st u))
     = length (converted_files st) + length (skipped_files st) + length (errors st) + 1"
    using loop_body_one [of L cfg u] by (simp only: a b c length_append)
  then show ?case
    by (simp add: Cons.IH)
qed

text \<open>
  C2: for every imaging library, every setting and every list of uploads, each of the
  three lists that the loop of \<open>main\<close> builds is the concatenation, in the order of the
  uploads, of what the loop body adds for each upload on its own; the loop body adds
  exactly one record, to exactly one of the three lists; and so the three lists hold as
  many records as there are uploads. What one upload does (an image that cannot be
  identified, an exception of the decoder or of the conversion) changes nothing in the
  records of the others.
\<close>

theorem batch_partition:
  "converted_files (main_loop L cfg no_files ups)
     = concat (map (\<lambda>u. converted_files (loop_body L cfg no_files u)) ups) \<and>
   skipped_files (main_loop L cfg no_files ups)
     = concat (map (\<lambda>u. skipped_files (loop_body L cfg no_files u)) ups) \<and>
   errors (main_loop L cfg no_files ups)
     = concat (map (\<lambda>u. errors (loop_body L cfg no_files u)) ups) \<and>
   (\<forall>u. length (converted_files (loop_body L cfg no_files u))
          + length (skipped_files (loop_body L cfg no_files u))
          + length (errors (loop_body L cfg no_files u)) = 1) \<and>
   length (converted_files (main_loop L cfg no_files ups))
     + length (skipped_files (main_loop L cfg no_files ups))
     + length (errors (main_loop L cfg no_files ups)) = length ups"
proof -
  have "main_loop L cfg no_files ups =
     \<lparr>converted_files = concat (map (\<lambda>u. converted_files (loop_body L cfg no_files u)) ups),
      skipped_files = concat (map (\<lambda>u. skipped_files (loop_body L cfg no_files u)) ups),
      errors = concat (map (\<lambda>u. errors (loop_body L cfg no_files u)) ups)\<rparr>"
    by (subst main_loop_app) (simp add: no_files_def)
  moreover have "length (converted_files (main_loop L cfg no_files ups))
     + length (skipped_files (main_loop L cfg no_files ups))
     + length (errors (main_loop L cfg no_files ups)) = length ups"
    by (simp add: main_loop_count) (simp add: no_files_def)
  ultimately show ?thesis
    using loop_body_one [of L cfg] by simp
qed

lemma loop_body_error:
  assumes "read_image_from_upload L up = Inr img"
    and "normalize_format_name (have_fmt cfg)
           = normalize_format_name (image_format_from_pil img (name up)) \<or> force_convert cfg"
    and "convert_image_to_bytes L img (want_fmt cfg) (name up) (jpeg_rgb cfg)
           (Some (ico_sizes cfg)) (preserve_animation cfg) = Inl e"
  shows "loop_body L cfg st up = st\<lparr>errors := errors st @ [(name up, exn_str e)]\<rparr>"
  using assms by (auto simp: loop_body_def Let_def)

lemma loop_body_converted:
  assumes "read_image_from_upload L up = Inr img"
    and "normalize_format_name (have_fmt cfg)
           = normalize_format_name (image_format_from_pil img (name up)) \<or> force_convert cfg"
    and "convert_image_to_bytes L img (want_fmt cfg) (name up) (jpeg_rgb cfg)
           (Some (ico_sizes cfg)) (preserve_animation cfg) = Inr (out_bytes, out_name)"
  shows "loop_body L cfg st up =
     st\<lparr>converted_files := converted_files st
         @ [(out_bytes, out_name, normalize_format_name (image_format_from_pil img (name up)))]\<rparr>"
  using assms by (auto simp: loop_body_def Let_def)

text \<open>
  C8: for an upload that decodes to an image, when the normalized name of the declared
  input format differs from the normalized name of the detected format and forcing is
  off, the loop body adds one skip record whose reason is \<open>Format mismatch (detected: \<close>
  followed by the normalized detected format and a closing parenthesis, and nothing else;
  when forcing is on, the upload goes to the conversion whatever the two formats are,
  and lands in the converted list or, if the conversion raises, in the error list.
\<close>

theorem format_mismatch_skip:
  assumes "read_image_from_upload L up = Inr img"
  shows
    "(normalize_format_name (have_fmt cfg)
        \<noteq> normalize_format_name (image_format_from_pil img (name up)) \<and> \<not> force_convert cfg \<longrightarrow>
      loop_body L cfg st up =
        st\<lparr>skipped_files := skipped_files st
            @ [(name up, str ''Format mismatch (detected: ''
                  @ normalize_format_name (image_format_from_pil img (name up)) @ str '')'')]\<rparr>) \<and>
     (force_convert cfg \<longrightarrow>
      loop_body L cfg st up =
        (case convert_image_to_bytes L img (want_fmt cfg) (name up) (jpeg_rgb cfg)
                (Some (ico_sizes cfg)) (preserve_animation cfg) of
           Inl e \<Rightarrow> st\<lparr>errors := errors st @ [(name up, exn_str e)]\<rparr>
         | Inr (out_bytes, out_name) \<Rightarrow>
             st\<lparr>converted_files := converted_files st
                  @ [(out_bytes, out_name,
                      normalize_format_name (image_format_from_pil img (name up)))]\<rparr>))"
  using assms by (simp add: loop_body_def Let_def)

theorem format_mismatch_skip_witness:
  "read_image_from_upload sample_pil \<lparr>name = str ''photo.png'', data = [2, 9]\<rparr>
     = Inr (sample_image (str ''JPEG'') (str ''RGB'') [9]) \<and>
   loop_body sample_pil sample_settings no_files \<lparr>name = str ''photo.png'', data = [2, 9]\<rparr>
     = \<lparr>converted_files = [],
        skipped_files = [(str ''photo.png'', str ''Format mismatch (detected: JPEG)'')],
        errors = []\<rparr> \<and>
   loop_body sample_pil (sample_settings\<lparr>force_convert := True\<rparr>) no_files
       \<lparr>name = str ''photo.png'', data = [2, 9]\<rparr>
     = \<lparr>converted_files = [([9], str ''photo.gif'', str ''JPEG'')], skipped_files = [],
        errors = []\<rparr>"
proof -
  let ?up = "\<lparr>name = str ''photo.png'', data = [2, 9]\<rparr>"
  let ?img = "sample_image (str ''JPEG'') (str ''RGB'') [9]"
  have r: "read_image_from_upload sample_pil ?up = Inr ?img"
    by (simp add: read_image_from_upload_def sample_defs)
  have d: "normalize_format_name (image_format_from_pil ?img (name ?up)) = str ''JPEG''"
    by (simp add: image_format_from_pil_def registry_defs sample_defs string_defs)
  have h: "normalize_format_name (have_fmt sample_settings) = str ''PNG''"
    by (simp add: registry_defs sample_defs string_defs)
  have cv: "convert_image_to_bytes sample_pil ?img (str ''GIF'') (str ''photo.png'') (255, 255, 255)
      (Some [(256, 256), (128, 128), (64, 64)]) True = Inr ([9], str ''photo.gif'')"
    by (simp add: convert_defs registry_defs path_defs sample_defs string_defs)
  note t = format_mismatch_skip [OF r, of sample_settings no_files]
  note t' = format_mismatch_skip [OF r, of "sample_settings\<lparr>force_convert := True\<rparr>" no_files]
  have ne: "str ''PNG'' \<noteq> str ''JPEG''"
    by (simp add: str_def)
  from t t' show ?thesis
    unfolding d h using r ne cv by (simp add: sample_settings_def no_files_def str_def)
qed

section \<open>Properties of the conversion\<close>

text \<open>
  C6: for a JPEG target and an image on which the code's test for transparency fails
  (its mode is neither RGBA nor LA, and it is not a palette image with a transparency
  entry), the image handed to the encoder is the library's plain conversion of the image
  to mode RGB: no canvas is created, nothing is pasted, and the background colour does
  not occur in the result of the conversion at all.
\<close>

theorem opaque_jpeg_plain_conversion:
  assumes "normalize_format_name target_format = str ''JPEG''" and "\<not> has_transparency img"
  shows "jpeg_background L img (str ''JPEG'') jpeg_bg_rgb = img_convert L img (str ''RGB'') \<and>
    convert_image_to_bytes L img target_format original_filename jpeg_bg_rgb sizes preserve =
      (case img_convert L img (str ''RGB'') of
         Inl e \<Rightarrow> Inl e
       | Inr rgb \<Rightarrow>
           (case save_regular L rgb new_buffer (str ''JPEG'') no_kwargs of
              (buf, Some e) \<Rightarrow> Inl e
            | (buf, None) \<Rightarrow> Inr (content buf, output_filename original_filename (str ''JPEG''))))"
proof -
  have ne: "str ''JPEG'' \<noteq> str ''GIF''" "str ''JPEG'' \<noteq> str ''ICO''"
    by (simp_all add: str_def)
  show ?thesis
    using assms ne
    by (simp add: convert_image_to_bytes_def jpeg_background_def ico_save_kwargs_def Let_def
        split: sum.splits)
qed

theorem opaque_jpeg_plain_conversion_witness:
  "jpeg_background sample_pil (sample_image (str ''PNG'') (str ''L'') [9]) (str ''JPEG'') (10, 20, 30)
     = Inr ((sample_image (str ''PNG'') (str ''L'') [9])\<lparr>format := None, mode := str ''RGB''\<rparr>) \<and>
   convert_image_to_bytes sample_pil (sample_image (str ''PNG'') (str ''L'') [9]) (str ''jpg'')
       (str ''pic.png'') (10, 20, 30) None True = Inr ([9], str ''pic.jpg'')"
proof -
  let ?img = "sample_image (str ''PNG'') (str ''L'') [9]"
  have t: "normalize_format_name (str ''jpg'') = str ''JPEG''"
    by (simp add: registry_defs string_defs)
  have o: "\<not> has_transparency ?img"
    by (simp add: has_transparency_def sample_defs str_def)
  from opaque_jpeg_plain_conversion [OF t o, where L = sample_pil and original_filename = "str ''pic.png''"
      and jpeg_bg_rgb = "(10, 20, 30)" and sizes = None and preserve = True]
  show ?thesis
    by (simp add: save_regular_def output_filename_def new_buffer_def no_kwargs_def
        registry_defs path_defs sample_defs string_defs)
qed

text \<open>
  C5: outside the branch that preserves a GIF animation, when the first save of the
  image (in the normalized target format, with the icon sizes for an ICO target) raises,
  the image is converted to mode RGBA and saved once more, into the same stream, in the
  target format, or as PNG when the target is ICO. The result of the whole conversion is
  the result of that second save: its bytes and the output file name, or its exception,
  or the exception of the conversion to RGBA. An exception of the conversion puts the
  file into the error list of the batch with the text of the exception.
\<close>

theorem retry_after_failed_save:
  assumes "\<not> (normalize_format_name target_format = str ''GIF'' \<and> is_animated img = Some True
             \<and> preserve)"
    and "jpeg_background L img (normalize_format_name target_format) jpeg_bg_rgb = Inr img_to_save"
    and "img_save L img_to_save new_buffer (normalize_format_name target_format)
           (ico_save_kwargs (normalize_format_name target_format) sizes) = (buf, Some e)"
  shows "convert_image_to_bytes L img target_format original_filename jpeg_bg_rgb sizes preserve =
      (case img_convert L img_to_save (str ''RGBA'') of
         Inl e' \<Rightarrow> Inl e'
       | Inr temp \<Rightarrow>
           (case img_save L temp buf
                   (if normalize_format_name target_format \<noteq> str ''ICO''
                    then normalize_format_name target_format else str ''PNG'')
                   (ico_save_kwargs (normalize_format_name target_format) sizes) of
              (buf', Some e') \<Rightarrow> Inl e'
            | (buf', None) \<Rightarrow>
                Inr (content buf',
                     output_filename original_filename (normalize_format_name target_format)))) \<and>
    (\<forall>cfg up st e'.
       read_image_from_upload L up = Inr img \<and>
       (normalize_format_name (have_fmt cfg)
          = normalize_format_name (image_format_from_pil img (name up)) \<or> force_convert cfg) \<and>
       convert_image_to_bytes L img (want_fmt cfg) (name up) (jpeg_rgb cfg)
         (Some (ico_sizes cfg)) (preserve_animation cfg) = Inl e' \<longrightarrow>
       loop_body L cfg st up = st\<lparr>errors := errors st @ [(name up, exn_str e')]\<rparr>)"
proof -
  let ?t = "normalize_format_name target_format"
  let ?kw = "ico_save_kwargs ?t sizes"
  have sr: "save_regular L img_to_save new_buffer ?t ?kw =
      (case img_convert L img_to_save (str ''RGBA'') of
         Inl e' \<Rightarrow> (buf, Some e')
       | Inr temp \<Rightarrow> img_save L temp buf (if ?t \<noteq> str ''ICO'' then ?t else str ''PNG'') ?kw)"
    using assms(3) by (simp add: save_regular_def)
  have "convert_image_to_bytes L img target_format original_filename jpeg_bg_rgb sizes preserve =
      (case save_regular L img_to_save new_buffer ?t ?kw of
         (buf', Some e') \<Rightarrow> Inl e'
       | (buf', None) \<Rightarrow> Inr (content buf', output_filename original_filename ?t))"
    unfolding convert_image_to_bytes_def Let_def assms(2) if_not_P [OF assms(1)] by simp
  also have "\<dots> =
      (case img_convert L img_to_save (str ''RGBA'') of
         Inl e' \<Rightarrow> Inl e'
       | Inr temp \<Rightarrow>
           (case img_save L temp buf (if ?t \<noteq> str ''ICO'' then ?t else str ''PNG'') ?kw of
              (buf', Some e') \<Rightarrow> Inl e'
            | (buf', None) \<Rightarrow> Inr (content buf', output_filename original_filename ?t)))"
    unfolding sr by (simp split: sum.splits)
  finally show ?thesis
    using loop_body_error [of L _ img] by blast
qed

theorem retry_after_failed_save_witness:
  "convert_image_to_bytes sample_pil (sample_image (str ''TIFF'') (str ''CMYK'') [5]) (str ''ico'')
       (str ''dir/x.y.tiff'') (0, 0, 0) (Some [(16, 16)]) True = Inr ([5], str ''x.y.ico'') \<and>
   convert_image_to_bytes full_disk_pil (sample_image (str ''TIFF'') (str ''CMYK'') [5]) (str ''PNG'')
       (str ''scan.tiff'') (255, 255, 255) (Some [(256, 256), (128, 128), (64, 64)]) True
     = Inl (OtherException (str ''disk full'')) \<and>
   loop_body full_disk_pil (sample_settings\<lparr>have_fmt := str ''TIFF'', want_fmt := str ''PNG''\<rparr>)
       no_files \<lparr>name = str ''scan.tiff'', data = [4, 5]\<rparr>
     = \<lparr>converted_files = [], skipped_files = [],
        errors = [(str ''scan.tiff'', str ''disk full'')]\<rparr>"
proof -
  let ?img = "sample_image (str ''TIFF'') (str ''CMYK'') [5]"
  let ?cfg = "sample_settings\<lparr>have_fmt := str ''TIFF'', want_fmt := str ''PNG''\<rparr>"
  let ?up = "\<lparr>name = str ''scan.tiff'', data = [4, 5]\<rparr>"
  have ico: "normalize_format_name (str ''ico'') = str ''ICO''"
    and png: "normalize_format_name (str ''PNG'') = str ''PNG''"
    and tiff: "normalize_format_name (str ''TIFF'') = str ''TIFF''"
    by (simp_all add: registry_defs string_defs)
  have a1: "\<not> (normalize_format_name (str ''ico'') = str ''GIF'' \<and> is_animated ?img = Some True \<and> True)"
    by (simp add: sample_image_def)
  have a2: "jpeg_background sample_pil ?img (normalize_format_name (str ''ico'')) (0, 0, 0) = Inr ?img"
    unfolding ico by (simp add: jpeg_background_def str_def)
  have a3: "img_save sample_pil ?img new_buffer (normalize_format_name (str ''ico''))
      (ico_save_kwargs (normalize_format_name (str ''ico'')) (Some [(16, 16)]))
      = (new_buffer, Some (OtherException (str ''cannot write mode CMYK'')))"
    unfolding ico by (simp add: sample_defs)
  have b1: "\<not> (normalize_format_name (str ''PNG'') = str ''GIF'' \<and> is_animated ?img = Some True \<and> True)"
    by (simp add: sample_image_def)
  have b2: "jpeg_background full_disk_pil ?img (normalize_format_name (str ''PNG'')) (255, 255, 255)
      = Inr ?img"
    unfolding png by (simp add: jpeg_background_def str_def)
  have b3: "img_save full_disk_pil ?img new_buffer (normalize_format_name (str ''PNG''))
      (ico_save_kwargs (normalize_format_name (str ''PNG''))
         (Some [(256, 256), (128, 128), (64, 64)]))
      = (new_buffer, Some (OtherException (str ''disk full'')))"
    unfolding png by (simp add: sample_defs)
  note A = retry_after_failed_save [OF a1 a2 a3, where original_filename = "str ''dir/x.y.tiff''"]
  note B = retry_after_failed_save [OF b1 b2 b3, where original_filename = "str ''scan.tiff''"]
  have conv1: "convert_image_to_bytes sample_pil ?img (str ''ico'') (str ''dir/x.y.tiff'') (0, 0, 0)
      (Some [(16, 16)]) True = Inr ([5], str ''x.y.ico'')"
    using A
    by (simp add: ico output_filename_def new_buffer_def ico_save_kwargs_def no_kwargs_def
        registry_defs path_defs sample_defs string_defs)
  have conv2: "convert_image_to_bytes full_disk_pil ?img (str ''PNG'') (str ''scan.tiff'')
      (255, 255, 255) (Some [(256, 256), (128, 128), (64, 64)]) True
      = Inl (OtherException (str ''disk full''))"
    using B by (simp add: png sample_defs)
  have r: "read_image_from_upload full_disk_pil ?up = Inr ?img"
    by (simp add: read_image_from_upload_def sample_defs)
  have d: "normalize_format_name (image_format_from_pil ?img (name ?up)) = str ''TIFF''"
    by (simp add: image_format_from_pil_def registry_defs sample_defs string_defs)
  have pre: "read_image_from_upload full_disk_pil ?up = Inr ?img \<and>
      (normalize_format_name (have_fmt ?cfg)
         = normalize_format_name (image_format_from_pil ?img (name ?up)) \<or> force_convert ?cfg) \<and>
      convert_image_to_bytes full_disk_pil ?img (want_fmt ?cfg) (name ?up) (jpeg_rgb ?cfg)
        (Some (ico_sizes ?cfg)) (preserve_animation ?cfg) = Inl (OtherException (str ''disk full''))"
    using r d conv2 tiff by (simp add: sample_settings_def)
  have "loop_body full_disk_pil ?cfg no_files ?up
      = no_files\<lparr>errors := errors no_files @ [(name ?up, exn_str (OtherException (str ''disk full'')))]\<rparr>"
    by (rule conjunct2 [OF B, rule_format, OF pre])
  then show ?thesis
    using conv1 conv2 by (simp add: no_files_def)
qed

section \<open>Properties of the animation branch\<close>

lemma animated_attempt_save:
  assumes "collect_frames L (ImageSequence_Iterator L img) [] img = (Inr (first # others), img')"
  shows "animated_attempt L img buf =
     (img_save L first buf (str ''GIF'')
        \<lparr>kw_sizes = None, kw_save_all = Some True, kw_append_images = Some others,
         kw_loop = Some (dict_get (info img) (str ''loop'') (PyInt 0)),
         kw_duration = Some (dict_get (info img) (str ''duration'') (PyInt 100)),
         kw_disposal = Some 2\<rparr>,
      img')"
  using assms by (simp add: animated_attempt_def)

text \<open>
  C4, on an animated GIF of three frames shown for 100, 150 and 200 ms, for any encoder
  \<open>sv\<close>: the frames are converted to RGBA and handed to the encoder in their order, with
  the loop count 0 and the disposal 2, but with the one duration 100 that \<open>img.info\<close>
  holds when the function is entered, not with the durations 100, 150, 200 of the frames.
  The image object is left at the last frame.
\<close>

theorem animated_gif_single_duration:
  "ImageSequence_Iterator (sample_pil\<lparr>img_save := sv\<rparr>) (sample_gif px) =
     Next (sample_frame (sample_gif px) 0 100)
       (Next (sample_frame (sample_gif px) 1 150)
          (Next (sample_frame (sample_gif px) 2 200) StopIteration)) \<and>
   map (\<lambda>f. dict_get (info f) (str ''duration'') (PyInt 100))
     [sample_frame (sample_gif px) 0 100, sample_frame (sample_gif px) 1 150,
      sample_frame (sample_gif px) 2 200] = [PyInt 100, PyInt 150, PyInt 200] \<and>
   animated_attempt (sample_pil\<lparr>img_save := sv\<rparr>) (sample_gif px) buf =
     (sv ((sample_frame (sample_gif px) 0 100)\<lparr>format := None, mode := str ''RGBA''\<rparr>) buf (str ''GIF'')
        \<lparr>kw_sizes = None, kw_save_all = Some True,
         kw_append_images =
           Some [(sample_frame (sample_gif px) 1 150)\<lparr>format := None, mode := str ''RGBA''\<rparr>,
                 (sample_frame (sample_gif px) 2 200)\<lparr>format := None, mode := str ''RGBA''\<rparr>],
         kw_loop = Some (PyInt 0), kw_duration = Some (PyInt 100), kw_disposal = Some 2\<rparr>,
      sample_frame (sample_gif px) 2 200)"
  by (simp add: animated_attempt_def dict_get_def sample_defs str_def)

text \<open>
  C7, as the claim states it, fails: with an encoder that cannot write several frames,
  the attempt to save the animation of an uploaded animated GIF raises, the \<open>except\<close>
  clause saves one static image, and the batch reports the file in the converted list,
  with nothing in the skipped list and nothing in the error list. The bytes written are
  those of the frame the image object was left at, the last one, not the first.
\<close>

theorem animation_lost_reported_as_success:
  "snd (fst (animated_attempt no_animation_pil (sample_gif [7]) new_buffer))
     = Some (OtherException (str ''cannot write frames'')) \<and>
   main_loop no_animation_pil (sample_settings\<lparr>have_fmt := str ''GIF''\<rparr>) no_files
       [\<lparr>name = str ''anim.gif'', data = [3, 7]\<rparr>]
     = \<lparr>converted_files = [([2], str ''anim.gif'', str ''GIF'')], skipped_files = [],
        errors = []\<rparr>"
  by (simp add: loop_defs convert_defs registry_defs path_defs sample_defs string_defs)

text \<open>
  C7, as amended: when the attempt to save the animation raises (in the conversion of a
  frame, in the iteration, or in the encoder), the conversion falls back to one static
  GIF image: the image object, in the state the iteration left it in, converted to RGBA
  and saved as GIF with no further arguments into the same stream. The result of the
  conversion is the result of that save, and when it succeeds the batch records the file
  in the converted list like any other success.
\<close>

theorem animated_fallback_static:
  assumes "normalize_format_name target_format = str ''GIF''" and "is_animated img = Some True"
    and "preserve"
    and "animated_attempt L img new_buffer = ((buf, Some e), img')"
  shows "convert_image_to_bytes L img target_format original_filename jpeg_bg_rgb sizes preserve =
      (case img_convert L img' (str ''RGBA'') of
         Inl e' \<Rightarrow> Inl e'
       | Inr rgba \<Rightarrow>
           (case img_save L rgba buf (str ''GIF'') no_kwargs of
              (buf', Some e') \<Rightarrow> Inl e'
            | (buf', None) \<Rightarrow> Inr (content buf', output_filename original_filename (str ''GIF'')))) \<and>
    (\<forall>cfg up st out_bytes out_name.
       read_image_from_upload L up = Inr img \<and>
       (normalize_format_name (have_fmt cfg)
          = normalize_format_name (image_format_from_pil img (name up)) \<or> force_convert cfg) \<and>
       convert_image_to_bytes L img (want_fmt cfg) (name up) (jpeg_rgb cfg)
         (Some (ico_sizes cfg)) (preserve_animation cfg) = Inr (out_bytes, out_name) \<longrightarrow>
       loop_body L cfg st up =
         st\<lparr>converted_files := converted_files st
             @ [(out_bytes, out_name,
                 normalize_format_name (image_format_from_pil img (name up)))]\<rparr>)"
proof -
  have ne: "str ''GIF'' \<noteq> str ''JPEG''"
    by (simp add: str_def)
  have jb: "jpeg_background L img (str ''GIF'') jpeg_bg_rgb = Inr img"
    using ne by (simp add: jpeg_background_def)
  have sa: "save_animated L img new_buffer =
      (case img_convert L img' (str ''RGBA'') of
         Inl e' \<Rightarrow> (buf, Some e')
       | Inr rgba \<Rightarrow> img_save L rgba buf (str ''GIF'') no_kwargs)"
    using assms(4) by (simp add: save_animated_def)
  have "convert_image_to_bytes L img target_format original_filename jpeg_bg_rgb sizes preserve =
      (case img_convert L img' (str ''RGBA'') of
         Inl e' \<Rightarrow> Inl e'
       | Inr rgba \<Rightarrow>
           (case img_save L rgba buf (str ''GIF'') no_kwargs of
              (buf', Some e') \<Rightarrow> Inl e'
            | (buf', None) \<Rightarrow> Inr (content buf', output_filename original_filename (str ''GIF''))))"
    unfolding convert_image_to_bytes_def Let_def assms(1) jb
    using assms(2,3) by (simp add: sa split: sum.splits)
  then show ?thesis
    using loop_body_converted [of L _ img] by blast
qed

theorem animated_fallback_static_witness:
  "animated_attempt no_animation_pil (sample_gif [7]) new_buffer
     = ((new_buffer, Some (OtherException (str ''cannot write frames''))),
        sample_frame (sample_gif [7]) 2 200) \<and>
   convert_image_to_bytes no_animation_pil (sample_gif [7]) (str ''gif'') (str ''anim.gif'')
       (255, 255, 255) (Some [(256, 256), (128, 128), (64, 64)]) True
     = Inr ([2], str ''anim.gif'') \<and>
   loop_body no_animation_pil (sample_settings\<lparr>have_fmt := str ''GIF'', want_fmt := str ''gif''\<rparr>)
       no_files \<lparr>name = str ''anim.gif'', data = [3, 7]\<rparr>
     = \<lparr>converted_files = [([2], str ''anim.gif'', str ''GIF'')], skipped_files = [],
        errors = []\<rparr>"
proof -
  let ?img = "sample_gif [7]"
  let ?cfg = "sample_settings\<lparr>have_fmt := str ''GIF'', want_fmt := str ''gif''\<rparr>"
  let ?up = "\<lparr>name = str ''anim.gif'', data = [3, 7]\<rparr>"
  have t: "normalize_format_name (str ''gif'') = str ''GIF''"
    and g: "normalize_format_name (str ''GIF'') = str ''GIF''"
    by (simp_all add: registry_defs string_defs)
  have an: "is_animated ?img = Some True"
    by (simp add: sample_gif_def)
  have at: "animated_attempt no_animation_pil ?img new_buffer
      = ((new_buffer, Some (OtherException (str ''cannot write frames''))),
         sample_frame ?img 2 200)"
    by (simp add: animated_attempt_def dict_get_def sample_defs str_def)
  note A = animated_fallback_static [OF t an TrueI at, where original_filename = "str ''anim.gif''"
      and jpeg_bg_rgb = "(255, 255, 255)" and sizes = "Some [(256, 256), (128, 128), (64, 64)]"]
  have conv: "convert_image_to_bytes no_animation_pil ?img (str ''gif'') (str ''anim.gif'')
      (255, 255, 255) (Some [(256, 256), (128, 128), (64, 64)]) True = Inr ([2], str ''anim.gif'')"
    using A
    by (simp add: output_filename_def new_buffer_def no_kwargs_def registry_defs path_defs
        sample_defs string_defs)
  have r: "read_image_from_upload no_animation_pil ?up = Inr ?img"
    by (simp add: read_image_from_upload_def sample_defs)
  have d: "normalize_format_name (image_format_from_pil ?img (name ?up)) = str ''GIF''"
    by (simp add: image_format_from_pil_def registry_defs sample_defs string_defs)
  have pre: "read_image_from_upload no_animation_pil ?up = Inr ?img \<and>
      (normalize_format_name (have_fmt ?cfg)
         = normalize_format_name (image_format_from_pil ?img (name ?up)) \<or> force_convert ?cfg) \<and>
      convert_image_to_bytes no_animation_pil ?img (want_fmt ?cfg) (name ?up) (jpeg_rgb ?cfg)
        (Some (ico_sizes ?cfg)) (preserve_animation ?cfg) = Inr ([2], str ''anim.gif'')"
    using r d conv g by (simp add: sample_settings_def)
  have "loop_body no_animation_pil ?cfg no_files ?up
      = no_files\<lparr>converted_files := converted_files no_files
          @ [([2], str ''anim.gif'',
              normalize_format_name (image_format_from_pil ?img (name ?up)))]\<rparr>"
    by (rule conjunct2 [OF A, rule_format, OF pre])
  then show ?thesis
    using at conv d by (simp add: no_files_def)
qed

end
